theory Spec2Isabelle
  imports Complex_Main
begin

section \<open>Python values used by the analytics service\<close>

text \<open>
  The analytics service is Python. Its exceptions are values of \<open>py_error\<close>; a function
  that can raise returns \<open>py_error + 'a\<close> with \<open>Inl\<close> for the exception. The service
  defines no exception class of its own: every business-rule failure is raised as
  \<open>ValueError\<close> with a message.

  Python floats are modelled by the real numbers (no rounding error, no NaN); a place
  where NumPy would return NaN is written out as such in the text next to the
  definition and is never reached by a result the theorems speak about. The one value
  for which the rounding of floats matters, the delivery rate of a message metric, is
  modelled a second time in binary64 arithmetic, in a section of its own. Messages are
  kept without the quotation marks Python prints inside them.

  A naive \<open>datetime\<close> is the number of microseconds on the UTC time line, a
  \<open>timedelta\<close> a number of microseconds.
\<close>

datatype py_error =
    ValueError string
  | AttributeError string
  | IndexError string
  | TypeError string
  | OverflowError string
  | NameError string
  | SyntaxError string
  | ConnectionError string
  | ZeroDivisionError

text \<open>The name of the exception's class, as \<open>type(e).__name__\<close> gives it.\<close>

fun exception_class :: "py_error \<Rightarrow> string" where
  "exception_class (ValueError msg) = ''ValueError''"
| "exception_class (AttributeError msg) = ''AttributeError''"
| "exception_class (IndexError msg) = ''IndexError''"
| "exception_class (TypeError msg) = ''TypeError''"
| "exception_class (OverflowError msg) = ''OverflowError''"
| "exception_class (NameError msg) = ''NameError''"
| "exception_class (SyntaxError msg) = ''SyntaxError''"
| "exception_class (ConnectionError msg) = ''ConnectionError''"
| "exception_class ZeroDivisionError = ''ZeroDivisionError''"

text \<open>
  Reading an attribute that an object's class does not define: the read itself raises,
  before a call could take place.
\<close>

definition missing_attribute :: "string \<Rightarrow> string \<Rightarrow> py_error + 'f" where
  "missing_attribute cls name = Inl (AttributeError (cls @ '' object has no attribute '' @ name))"

type_synonym datetime = int
type_synonym timedelta = int

definition timedelta_seconds :: "int \<Rightarrow> timedelta" where
  "timedelta_seconds n = n * 1000000"

definition timedelta_hours :: "int \<Rightarrow> timedelta" where
  "timedelta_hours n = n * 3600000000"

definition timedelta_days :: "int \<Rightarrow> timedelta" where
  "timedelta_days n = n * 86400000000"

definition timedelta_weeks :: "int \<Rightarrow> timedelta" where
  "timedelta_weeks n = n * 604800000000"

text \<open>\<open>a / b\<close> on Python ints: true division, \<open>ZeroDivisionError\<close> on a zero divisor.\<close>

definition py_truediv :: "int \<Rightarrow> int \<Rightarrow> py_error + real" where
  "py_truediv a b = (if b = 0 then Inl ZeroDivisionError else Inr (real_of_int a / real_of_int b))"

text \<open>\<open>round(x, nd)\<close> on the reals: to \<open>nd\<close> decimals, a tie going to the even
  neighbour. (On floats: \<open>float_round\<close> below.)\<close>

definition round_half_even :: "real \<Rightarrow> int" where
  "round_half_even x =
     (let f = \<lfloor>x\<rfloor>; d = x - of_int f
      in if d < 1 / 2 then f
         else if 1 / 2 < d then f + 1
         else if even f then f else f + 1)"

definition py_round :: "real \<Rightarrow> nat \<Rightarrow> real" where
  "py_round x nd = of_int (round_half_even (x * 10 ^ nd)) / 10 ^ nd"


section \<open>models/metrics.py\<close>

text \<open>
  The \<open>metadata\<close> dictionary of a metric, with the keys the module writes. The strings
  produced by \<open>isoformat()\<close> are kept as the datetimes they print; keys the caller
  supplied beyond these are in \<open>extra\<close>.
\<close>

record metric_metadata =
  created_at :: "datetime option"
  version :: "string option"
  metric_type :: "string option"
  delivery_rate_history :: "(datetime \<times> real) list option"
  extra :: "(string \<times> string) list"

record BaseMetric =
  metric_id :: string
  organization_id :: string
  timestamp :: datetime
  metadata :: metric_metadata
  is_valid :: bool
  validation_errors :: "string list"

record MessageMetric = BaseMetric +
  total_messages :: int
  delivered_messages :: int
  failed_messages :: int
  delivery_status_breakdown :: "(string \<times> int) list"
  queue_status :: "(string \<times> real) list"
  message_types :: "(string \<times> int) list"
  delivery_rate :: real

text \<open>
  \<open>re.match(r'^[a-zA-Z0-9-]{4,}$', s)\<close>: at least four characters of the class and
  nothing else, except that \<open>$\<close> also matches before one final newline.
\<close>

definition organization_id_char :: "char \<Rightarrow> bool" where
  "organization_id_char c =
     (let n = (of_char c :: nat)
      in (97 \<le> n \<and> n \<le> 122) \<or> (65 \<le> n \<and> n \<le> 90) \<or> (48 \<le> n \<and> n \<le> 57) \<or> n = 45)"

definition organization_id_match :: "string \<Rightarrow> bool" where
  "organization_id_match s =
     (let body = (if s \<noteq> [] \<and> last s = CHR 0x0A then butlast s else s)
      in 4 \<le> length body \<and> list_all organization_id_char body)"

text \<open>
  \<open>BaseMetric.validate\<close>. \<open>uuid_ok s\<close> stands for "\<open>uuid.UUID(s)\<close> returns", the
  standard library's parser; \<open>now\<close> is the reading of \<open>datetime.utcnow()\<close>.
  The method resets the error list, appends one message per failed check and sets
  \<open>is_valid\<close> from the list as it is then.
\<close>

definition validate :: "(string \<Rightarrow> bool) \<Rightarrow> datetime \<Rightarrow> 'a BaseMetric_scheme \<Rightarrow> 'a BaseMetric_scheme" where
  "validate uuid_ok now m =
     (let e0 = [];
          e1 = (if uuid_ok (metric_id m) then e0 else e0 @ [''Invalid metric_id format'']);
          e2 = (if organization_id_match (organization_id m) then e1
                else e1 @ [''Invalid organization_id format'']);
          e3 = (if now < timestamp m then e2 @ [''Timestamp cannot be in the future''] else e2)
      in m\<lparr>validation_errors := e3, is_valid := (length e3 = 0)\<rparr>)"

text \<open>\<open>BaseMetric.__post_init__\<close>; \<open>cls\<close> is \<open>self.__class__.__name__\<close>.\<close>

definition BaseMetric_post_init ::
  "(string \<Rightarrow> bool) \<Rightarrow> datetime \<Rightarrow> datetime \<Rightarrow> string \<Rightarrow> 'a BaseMetric_scheme \<Rightarrow> 'a BaseMetric_scheme" where
  "BaseMetric_post_init uuid_ok now_validate now_created cls m =
     (let m1 = validate uuid_ok now_validate (m\<lparr>validation_errors := []\<rparr>)
      in m1\<lparr>metadata := (metadata m1)\<lparr>created_at := Some now_created,
                                        version := Some ''1.0.0'',
                                        metric_type := Some cls\<rparr>\<rparr>)"

text \<open>
  \<open>MessageMetric.calculate_delivery_rate\<close>: returns the rate and the metric with its
  metadata history and error list updated. The SLA test reads the rate before it is
  rounded.
\<close>

definition calculate_delivery_rate ::
  "datetime \<Rightarrow> 'a MessageMetric_scheme \<Rightarrow> py_error + real \<times> 'a MessageMetric_scheme" where
  "calculate_delivery_rate now m =
     (if total_messages m = 0 then Inr (0, m)
      else case py_truediv (delivered_messages m) (total_messages m) of
             Inl e \<Rightarrow> Inl e
           | Inr q \<Rightarrow>
               (let rate = q * 100;
                    h = (case delivery_rate_history (metadata m) of None \<Rightarrow> [] | Some l \<Rightarrow> l);
                    m1 = m\<lparr>metadata := (metadata m)\<lparr>delivery_rate_history := Some (h @ [(now, rate)])\<rparr>\<rparr>;
                    m2 = (if rate < 99 then
                            m1\<lparr>validation_errors :=
                                 validation_errors m1 @ [''Delivery rate below SLA requirement of 99%'']\<rparr>
                          else m1)
                in Inr (py_round rate 2, m2)))"

text \<open>
  \<open>MessageMetric.__post_init__\<close>. \<open>clock k\<close> is the k-th reading of
  \<open>datetime.utcnow()\<close> during the construction.
\<close>

definition MessageMetric_post_init ::
  "(string \<Rightarrow> bool) \<Rightarrow> (nat \<Rightarrow> datetime) \<Rightarrow> MessageMetric \<Rightarrow> py_error + MessageMetric" where
  "MessageMetric_post_init uuid_ok clock m =
     (let m1 = BaseMetric_post_init uuid_ok (clock 0) (clock 1) ''MessageMetric'' m
      in case calculate_delivery_rate (clock 2) m1 of
           Inl e \<Rightarrow> Inl e
         | Inr (r, m2) \<Rightarrow>
             (let m3 = m2\<lparr>delivery_rate := r\<rparr>;
                  m4 = (if total_messages m3 < 0 \<or> delivered_messages m3 < 0 \<or> failed_messages m3 < 0
                        then m3\<lparr>validation_errors :=
                                  validation_errors m3 @ [''Message counts cannot be negative'']\<rparr>
                        else m3);
                  m5 = (if total_messages m4 < delivered_messages m4 + failed_messages m4
                        then m4\<lparr>validation_errors :=
                                  validation_errors m4 @ [''Total messages must be >= delivered + failed messages'']\<rparr>
                        else m4)
              in Inr m5))"

definition empty_metadata :: metric_metadata where
  "empty_metadata = \<lparr>created_at = None, version = None, metric_type = None,
                      delivery_rate_history = None, extra = []\<rparr>"

text \<open>
  A metric object as \<open>__post_init__\<close> receives it, by its counts: the fields from the
  arguments, \<open>is_valid = False\<close> and an empty error list. The attribute
  \<open>delivery_rate\<close> does not exist before \<open>__post_init__\<close> assigns it; the record
  holds 0 until then.
\<close>
definition sample_metric :: "int \<Rightarrow> int \<Rightarrow> int \<Rightarrow> MessageMetric" where
  "sample_metric t d f =
     \<lparr>metric_id = ''123e4567-e89b-12d3-a456-426614174000'', organization_id = ''org-1'',
      timestamp = 5, metadata = empty_metadata, is_valid = False, validation_errors = [],
      total_messages = t, delivered_messages = d, failed_messages = f,
      delivery_status_breakdown = [], queue_status = [], message_types = [],
      delivery_rate = 0\<rparr>"

text \<open>
  The same object after \<open>__post_init__\<close> has run on it, with the identifier accepted
  by the UUID parser and every clock reading 1000.
\<close>

definition sample_clock :: "nat \<Rightarrow> datetime" where
  "sample_clock k = 1000"

definition sample_uuid_ok :: "string \<Rightarrow> bool" where
  "sample_uuid_ok s = (s = ''123e4567-e89b-12d3-a456-426614174000'')"

definition initialised :: "MessageMetric \<Rightarrow> MessageMetric" where
  "initialised m = projr (MessageMetric_post_init sample_uuid_ok sample_clock m)"

record SystemMetric = BaseMetric +
  response_time :: real
  cpu_usage :: real
  memory_usage :: real
  concurrent_users :: int
  error_counts :: "(string \<times> int) list"
  resource_thresholds :: "(string \<times> real) list"
  performance_history :: "(string \<times> real list) list"


section \<open>Binary64 arithmetic of the delivery rate\<close>

text \<open>
  The value of the delivery rate is decided by the rounding of Python's floats, so the
  three operations that produce it (\<open>int / int\<close>, \<open>float * float\<close>, \<open>round\<close>) are
  modelled here in IEEE binary64 with round-to-nearest-even.
\<close>

text \<open>
  A Python float that is not NaN: a finite double, given by the real number it
  denotes, or an infinity. The two zeros, which compare equal, are one value.
\<close>

datatype pyfloat = Finite real | PosInf | NegInf







text \<open>\<open>x < y\<close> for a float \<open>x\<close> and a finite \<open>y\<close>.\<close>

fun float_less :: "pyfloat \<Rightarrow> real \<Rightarrow> bool" where
  "float_less (Finite x) y = (x < y)"
| "float_less PosInf y = False"
| "float_less NegInf y = True"




section \<open>NumPy reductions used by services/calculator.py\<close>

text \<open>
  On an empty array \<open>np.mean\<close>, \<open>np.std\<close> and \<open>np.median\<close> return NaN with a warning;
  \<open>np.min\<close> and \<open>np.max\<close> raise \<open>ValueError\<close>. The callers below reach a result only
  with a non-empty array.
\<close>

definition np_mean :: "real list \<Rightarrow> real" where
  "np_mean xs = sum_list xs / real (length xs)"

definition np_std :: "real list \<Rightarrow> real" where
  "np_std xs = sqrt (np_mean (map (\<lambda>x. (x - np_mean xs)\<^sup>2) xs))"

definition np_median :: "real list \<Rightarrow> real" where
  "np_median xs =
     (let s = sort xs; n = length s
      in if odd n then s ! (n div 2) else (s ! (n div 2 - 1) + s ! (n div 2)) / 2)"

fun np_min :: "real list \<Rightarrow> py_error + real" where
  "np_min [] = Inl (ValueError ''zero-size array to reduction operation minimum which has no identity'')"
| "np_min (x # xs) = Inr (fold min xs x)"

fun np_max :: "real list \<Rightarrow> py_error + real" where
  "np_max [] = Inl (ValueError ''zero-size array to reduction operation maximum which has no identity'')"
| "np_max (x # xs) = Inr (fold max xs x)"

text \<open>
  \<open>np.percentile(data, p)\<close> with the default linear interpolation: the virtual index
  \<open>(n - 1) * p / 100\<close> into the sorted data, interpolated between its two neighbours.
  A \<open>p\<close> outside [0, 100] is refused; on an empty array the read of the last element
  fails.
\<close>

definition linear_percentile :: "real list \<Rightarrow> real \<Rightarrow> real" where
  "linear_percentile xs p =
     (let s = sort xs; n = length s;
          h = real (n - 1) * (p / 100);
          lo = nat \<lfloor>h\<rfloor>;
          hi = min (lo + 1) (n - 1)
      in s ! lo + (s ! hi - s ! lo) * (h - real lo))"

definition np_percentile :: "real list \<Rightarrow> real \<Rightarrow> py_error + real" where
  "np_percentile xs p =
     (if \<not> (0 \<le> p \<and> p \<le> 100) then Inl (ValueError ''Percentiles must be in the range [0, 100]'')
      else if xs = [] then Inl (IndexError ''index -1 is out of bounds for axis 0 with size 0'')
      else Inr (linear_percentile xs p))"

text \<open>\<open>np.mean\<close> of a boolean array: the fraction of entries that satisfy the test.\<close>

definition np_mean_bool :: "(real \<Rightarrow> bool) \<Rightarrow> real list \<Rightarrow> real" where
  "np_mean_bool P xs = np_mean (map (\<lambda>x. if P x then 1 else 0) xs)"

text \<open>A comprehension over calls that may raise: the first exception ends it.\<close>

fun collect :: "('a \<Rightarrow> py_error + 'b) \<Rightarrow> 'a list \<Rightarrow> py_error + 'b list" where
  "collect f [] = Inr []"
| "collect f (x # xs) =
     (case f x of
        Inl e \<Rightarrow> Inl e
      | Inr y \<Rightarrow> (case collect f xs of Inl e \<Rightarrow> Inl e | Inr ys \<Rightarrow> Inr (y # ys)))"


section \<open>services/calculator.py\<close>

record summary_options =
  opt_percentiles :: "real list option"
  opt_include_outliers :: "bool option"

record basic_stats_dict =
  mean :: real
  median :: real
  std :: real
  minimum :: real
  maximum :: real

record confidence_interval_dict =
  lower :: real
  upper :: real
  confidence_level :: real

text \<open>
  The summary. The dictionary \<open>percentiles\<close> has the key \<open>'p{p}'\<close> for each requested
  \<open>p\<close>; it is kept as the list of the pairs \<open>(p, value)\<close> in the order of the request.
  The key \<open>confidence_interval\<close> is present or not.
\<close>

record statistical_summary =
  basic_stats :: basic_stats_dict
  percentiles :: "(real \<times> real) list"
  confidence_interval :: "confidence_interval_dict option"

text \<open>\<open>options.get('percentiles', [25, 50, 75])\<close>.\<close>

definition requested_percentiles :: "summary_options \<Rightarrow> real list" where
  "requested_percentiles options =
     (case opt_percentiles options of None \<Rightarrow> [25, 50, 75] | Some l \<Rightarrow> l)"

definition calculate_statistical_summary ::
  "real list \<Rightarrow> summary_options \<Rightarrow> py_error + statistical_summary" where
  "calculate_statistical_summary data options =
     (let ps = requested_percentiles options
      in case np_min data of
           Inl e \<Rightarrow> Inl e
         | Inr mn \<Rightarrow>
            (case np_max data of
               Inl e \<Rightarrow> Inl e
             | Inr mx \<Rightarrow>
                (case collect (\<lambda>p. map_sum id (Pair p) (np_percentile data p)) ps of
                   Inl e \<Rightarrow> Inl e
                 | Inr pd \<Rightarrow>
                    (let summary = \<lparr>basic_stats = \<lparr>mean = np_mean data, median = np_median data,
                                                    std = np_std data, minimum = mn, maximum = mx\<rparr>,
                                     percentiles = pd,
                                     confidence_interval = None\<rparr>
                     in if 30 \<le> length data then
                          (let confidence_level = 95 / 100;
                               z_score = 196 / 100;
                               standard_error = np_std data / sqrt (real (length data));
                               mean = np_mean data
                           in Inr (summary\<lparr>confidence_interval :=
                                     Some \<lparr>lower = mean - z_score * standard_error,
                                           upper = mean + z_score * standard_error,
                                           confidence_level = confidence_level\<rparr>\<rparr>))
                        else Inr summary))))"

record threshold_analysis_dict =
  threshold_breaches :: "real list"
  critical_breaches :: real
  threshold_margins :: "real list"

text \<open>\<open>MetricsCalculator._analyze_thresholds\<close>.\<close>

definition analyze_thresholds :: "real list \<Rightarrow> real list \<Rightarrow> py_error + threshold_analysis_dict" where
  "analyze_thresholds values thresholds =
     (let breaches = map (\<lambda>threshold. np_mean_bool (\<lambda>v. v < threshold) values) thresholds
      in case np_min thresholds of
           Inl e \<Rightarrow> Inl e
         | Inr tmin \<Rightarrow>
            (case collect (\<lambda>threshold. np_min (map (\<lambda>v. v - threshold) values)) thresholds of
               Inl e \<Rightarrow> Inl e
             | Inr margins \<Rightarrow>
                 Inr \<lparr>threshold_breaches = breaches,
                      critical_breaches = np_mean_bool (\<lambda>v. v < tmin) values,
                      threshold_margins = margins\<rparr>))"

record current_statistics_dict =
  total_messages_sum :: int
  average_delivery_rate :: real
  std_deviation :: real
  sla_compliance :: real

record 'h delivery_statistics =
  current_statistics :: current_statistics_dict
  statistical_analysis :: statistical_summary
  historical_trends :: 'h
  threshold_analysis :: threshold_analysis_dict
  generated_timestamp :: datetime

text \<open>
  The state of a \<open>MetricsCalculator\<close>: the threshold arrays and the frame of historical
  values, one row per observation.
\<close>

record historical_row =
  row_timestamp :: datetime
  row_metric_type :: string
  row_value :: real

record MetricsCalculator =
  delivery_thresholds :: "real list"
  engagement_thresholds :: "real list"
  historical_data :: "historical_row list"

record 'y historical_trends_dict =
  trend_direction :: real
  volatility :: real
  year_over_year :: 'y

text \<open>
  \<open>MetricsCalculator._calculate_historical_trends\<close>. \<open>np_polyfit\<close> is NumPy's
  \<open>polyfit(x, y, deg)\<close>, a parameter: it returns the coefficients or raises (on an
  empty \<open>x\<close> it raises \<open>TypeError\<close>). The entries of the dictionary are evaluated in
  order; the last one calls \<open>self._calculate_yoy_change\<close>, a method that the class
  does not define and no other class provides.
\<close>

definition calculate_historical_trends ::
  "(real list \<Rightarrow> real list \<Rightarrow> nat \<Rightarrow> py_error + real list) \<Rightarrow> 'a MetricsCalculator_scheme \<Rightarrow>
   string \<Rightarrow> real list \<Rightarrow> datetime \<Rightarrow> py_error + 'y historical_trends_dict" where
  "calculate_historical_trends np_polyfit self metric_name current_values time_range =
     (let historical_values =
            map row_value
              (filter (\<lambda>row. row_metric_type row = metric_name \<and> time_range \<le> row_timestamp row)
                 (historical_data self))
      in case np_polyfit (map real [0..<length historical_values]) historical_values 1 of
           Inl e \<Rightarrow> Inl e
         | Inr coefficients \<Rightarrow>
            (case coefficients of
               [] \<Rightarrow> Inl (IndexError ''index 0 is out of bounds for axis 0 with size 0'')
             | c # cs \<Rightarrow>
                (let vol = np_std historical_values
                 in case (missing_attribute ''MetricsCalculator'' ''_calculate_yoy_change''
                            :: py_error + (real list \<Rightarrow> real list \<Rightarrow> py_error + 'y)) of
                      Inl e \<Rightarrow> Inl e
                    | Inr calculate_yoy_change \<Rightarrow>
                       (case calculate_yoy_change historical_values current_values of
                          Inl e \<Rightarrow> Inl e
                        | Inr yoy \<Rightarrow>
                            Inr \<lparr>trend_direction = c, volatility = vol, year_over_year = yoy\<rparr>))))"

text \<open>
  \<open>MetricsCalculator.calculate_delivery_statistics\<close>. The historical comparison is
  computed before the result dictionary is built.
\<close>

definition calculate_delivery_statistics ::
  "(real list \<Rightarrow> real list \<Rightarrow> nat \<Rightarrow> py_error + real list) \<Rightarrow> 'a MetricsCalculator_scheme \<Rightarrow>
   datetime \<Rightarrow> MessageMetric list \<Rightarrow> datetime \<Rightarrow>
   py_error + ('y historical_trends_dict) delivery_statistics" where
  "calculate_delivery_statistics np_polyfit self now metrics time_range =
     (let valid_metrics = filter is_valid metrics
      in if valid_metrics = [] then Inl (ValueError ''No valid metrics provided for analysis'')
         else
           (let delivery_rates = map delivery_rate valid_metrics;
                total = sum_list (map total_messages valid_metrics)
            in case calculate_statistical_summary delivery_rates
                      \<lparr>opt_percentiles = Some [25, 50, 75, 90, 95, 99],
                       opt_include_outliers = Some True\<rparr> of
                 Inl e \<Rightarrow> Inl e
               | Inr stats_summary \<Rightarrow>
                   (case calculate_historical_trends np_polyfit self ''delivery_rate''
                           delivery_rates time_range of
                      Inl e \<Rightarrow> Inl e
                    | Inr historical_comparison \<Rightarrow>
                        (case analyze_thresholds delivery_rates (delivery_thresholds self) of
                           Inl e \<Rightarrow> Inl e
                         | Inr ta \<Rightarrow>
                             Inr \<lparr>current_statistics =
                                    \<lparr>total_messages_sum = total,
                                     average_delivery_rate = np_mean delivery_rates,
                                     std_deviation = np_std delivery_rates,
                                     sla_compliance = np_mean_bool (\<lambda>r. 99 \<le> r) delivery_rates\<rparr>,
                                  statistical_analysis = stats_summary,
                                  historical_trends = historical_comparison,
                                  threshold_analysis = ta,
                                  generated_timestamp = now\<rparr>))))"

record response_time_analysis_dict =
  average :: real
  p95 :: real
  response_time_sla_compliance :: real

record utilization_dict =
  utilization_average :: real
  peak :: real

record ('s, 'p) performance_statistics =
  response_time_analysis :: response_time_analysis_dict
  cpu :: utilization_dict
  memory :: utilization_dict
  health_indicators :: 's
  performance_timestamp :: datetime
  predictions :: "'p option"

text \<open>
  \<open>MetricsCalculator.calculate_performance_statistics\<close>. After the three arrays are
  built the method calls \<open>self._calculate_health_status\<close>, and for the predictions
  \<open>self._generate_performance_predictions\<close>; the class defines neither.
\<close>

definition calculate_performance_statistics ::
  "'a MetricsCalculator_scheme \<Rightarrow> datetime \<Rightarrow> SystemMetric list \<Rightarrow> bool \<Rightarrow>
   py_error + ('s, 'p) performance_statistics" where
  "calculate_performance_statistics self now metrics include_predictions =
     (let response_times = map response_time metrics;
          cpu_usages = map cpu_usage metrics;
          memory_usages = map memory_usage metrics
      in case (missing_attribute ''MetricsCalculator'' ''_calculate_health_status''
                 :: py_error + (SystemMetric list \<Rightarrow> py_error + 's)) of
           Inl e \<Rightarrow> Inl e
         | Inr calculate_health_status \<Rightarrow>
         (case calculate_health_status metrics of
           Inl e \<Rightarrow> Inl e
         | Inr health_status \<Rightarrow>
            (case np_percentile response_times 95 of
               Inl e \<Rightarrow> Inl e
             | Inr p \<Rightarrow>
                (case np_max cpu_usages of
                   Inl e \<Rightarrow> Inl e
                 | Inr cpu_peak \<Rightarrow>
                    (case np_max memory_usages of
                       Inl e \<Rightarrow> Inl e
                     | Inr memory_peak \<Rightarrow>
                        (let performance_data =
                               \<lparr>response_time_analysis =
                                  \<lparr>average = np_mean response_times,
                                   p95 = p,
                                   response_time_sla_compliance = np_mean_bool (\<lambda>t. t < 2) response_times\<rparr>,
                                cpu = \<lparr>utilization_average = np_mean cpu_usages, peak = cpu_peak\<rparr>,
                                memory = \<lparr>utilization_average = np_mean memory_usages, peak = memory_peak\<rparr>,
                                health_indicators = health_status,
                                performance_timestamp = now,
                                predictions = None\<rparr>
                         in if include_predictions then
                              (case (missing_attribute ''MetricsCalculator''
                                       ''_generate_performance_predictions''
                                       :: py_error + (SystemMetric list \<Rightarrow> py_error + 'p)) of
                                 Inl e \<Rightarrow> Inl e
                               | Inr generate_performance_predictions \<Rightarrow>
                                  (case generate_performance_predictions metrics of
                                     Inl e \<Rightarrow> Inl e
                                   | Inr pr \<Rightarrow> Inr (performance_data\<lparr>predictions := Some pr\<rparr>)))
                            else Inr performance_data))))))"


section \<open>services/aggregator.py\<close>

text \<open>
  The aggregator works on pandas objects. What it asks of pandas is a parameter, one
  field per expression of the source; each may raise:
  \<^item> \<open>groupby\<close>: \<open>data.set_index('timestamp').groupby(pd.Grouper(freq=f))\<close> on the frame
    built from the metrics, after the float columns were cast to \<open>float32\<close> when the
    flag is set;
  \<^item> \<open>agg\<close>: \<open>grouped_data.agg({...}).to_dict()\<close>;
  \<^item> \<open>mean_at_least\<close>: \<open>grouped_data['delivery_rate'].mean() >= 99.0\<close>;
  \<^item> \<open>mean_as_float\<close>: \<open>float(grouped_data['delivery_rate'].mean())\<close>;
  \<^item> \<open>count_below\<close>: \<open>int(sum(grouped_data['delivery_rate'] < 99.0))\<close>.
\<close>

record ('g, 'ts, 'c) pandas =
  groupby :: "bool \<Rightarrow> string \<Rightarrow> MessageMetric list \<Rightarrow> py_error + 'g"
  agg :: "'g \<Rightarrow> py_error + 'ts"
  mean_at_least :: "'g \<Rightarrow> real \<Rightarrow> py_error + 'c"
  mean_as_float :: "'g \<Rightarrow> py_error + real"
  count_below :: "'g \<Rightarrow> real \<Rightarrow> py_error + int"

text \<open>\<open>group_by_time_period\<close>; \<open>memory_efficient\<close> is the entry of that name in
  \<open>optimization_config\<close>.\<close>

definition group_by_time_period ::
  "('g, 'ts, 'c) pandas \<Rightarrow> MessageMetric list \<Rightarrow> string \<Rightarrow> bool \<Rightarrow> py_error + 'g" where
  "group_by_time_period pd data time_period memory_efficient =
     (if time_period \<notin> set [''hourly'', ''daily'', ''weekly'']
      then Inl (ValueError ''Invalid time period. Must be one of [hourly, daily, weekly]'')
      else groupby pd memory_efficient
             (if time_period = ''hourly'' then ''H'' else if time_period = ''daily'' then ''D'' else ''W'')
             data)"

record ('c) sla_compliance_dict =
  compliant :: 'c
  average_rate :: real
  breach_count :: int

record ('y, 'ts, 'c) aggregated_metrics =
  delivery_statistics_entry :: "('y historical_trends_dict) delivery_statistics"
  time_series_analysis :: 'ts
  sla_compliance_entry :: "'c sla_compliance_dict option"

text \<open>
  \<open>MetricsAggregator.aggregate_delivery_metrics\<close>; \<open>calculator\<close> is
  \<open>self._calculator\<close>. The entries of the result are evaluated in order: the
  calculator's statistics first, the SLA entry last. \<open>clock 0\<close> is the reading from
  which the thirty days are subtracted, \<open>clock 1\<close> the calculator's.
\<close>

definition aggregate_delivery_metrics ::
  "('g, 'ts, 'c) pandas \<Rightarrow> (real list \<Rightarrow> real list \<Rightarrow> nat \<Rightarrow> py_error + real list) \<Rightarrow>
   'a MetricsCalculator_scheme \<Rightarrow> (nat \<Rightarrow> datetime) \<Rightarrow> MessageMetric list \<Rightarrow> string \<Rightarrow> bool \<Rightarrow>
   py_error + ('y, 'ts, 'c) aggregated_metrics" where
  "aggregate_delivery_metrics pd np_polyfit calculator clock metrics time_period validate_sla =
     (case group_by_time_period pd metrics time_period True of
        Inl e \<Rightarrow> Inl e
      | Inr grouped_data \<Rightarrow>
         (case calculate_delivery_statistics np_polyfit calculator (clock 1) metrics
                 (clock 0 - timedelta_days 30) of
            Inl e \<Rightarrow> Inl e
          | Inr statistics \<Rightarrow>
             (case agg pd grouped_data of
                Inl e \<Rightarrow> Inl e
              | Inr series \<Rightarrow>
                 (if validate_sla then
                    (case mean_at_least pd grouped_data 99 of
                       Inl e \<Rightarrow> Inl e
                     | Inr c \<Rightarrow>
                        (case mean_as_float pd grouped_data of
                           Inl e \<Rightarrow> Inl e
                         | Inr a \<Rightarrow>
                            (case count_below pd grouped_data 99 of
                               Inl e \<Rightarrow> Inl e
                             | Inr b \<Rightarrow>
                                 Inr \<lparr>delivery_statistics_entry = statistics,
                                      time_series_analysis = series,
                                      sla_compliance_entry =
                                        Some \<lparr>compliant = c, average_rate = a, breach_count = b\<rparr>\<rparr>)))
                  else Inr \<lparr>delivery_statistics_entry = statistics,
                            time_series_analysis = series,
                            sla_compliance_entry = None\<rparr>))))"


section \<open>models/reports.py\<close>

text \<open>
  The module begins with \<open>from datetime import datetime\<close>: inside it the name
  \<open>datetime\<close> is the class, and the class has no attribute \<open>timedelta\<close> (that is a
  name of the module \<open>datetime\<close>, which services/aggregator.py and routes/reports.py
  import as \<open>from datetime import datetime, timedelta\<close>). Reading
  \<open>datetime.timedelta\<close> in this module therefore raises \<open>AttributeError\<close> before any
  argument is looked at. \<open>datetime_attr_timedelta\<close> is that attribute read; had it
  returned, its value would be the constructor, applied below to the duration its
  keyword argument gives.
\<close>

definition datetime_attr_timedelta :: "py_error + (timedelta \<Rightarrow> timedelta)" where
  "datetime_attr_timedelta = Inl (AttributeError ''type object datetime.datetime has no attribute timedelta'')"

text \<open>\<open>int(x)\<close> on a float: truncation towards zero.\<close>

definition py_int :: "real \<Rightarrow> int" where
  "py_int x = (if 0 \<le> x then \<lfloor>x\<rfloor> else \<lceil>x\<rceil>)"

text \<open>\<open>timedelta.total_seconds()\<close>.\<close>

definition total_seconds :: "timedelta \<Rightarrow> real" where
  "total_seconds d = real_of_int d / 1000000"

record report_time_range =
  range_start :: datetime
  range_end :: datetime
  duration_hours :: real

record report_metadata_dict =
  report_created_at :: datetime
  report_version :: string
  metadata_report_type :: string
  time_range :: report_time_range
  data_retention :: "string \<times> int \<times> string"

record validation_rules_dict =
  completeness_threshold :: real
  freshness_threshold_minutes :: int
  consistency_checks :: "string list"
  quality_metrics :: "string list"

record time_partitions_dict =
  strategy :: string
  partition_count :: int
  partition_boundaries :: "datetime list"

text \<open>
  The three dictionaries of a report start empty (\<open>None\<close>) and are filled by
  \<open>__post_init__\<close> with the keys above.
\<close>

record BaseReport =
  report_id :: string
  report_organization_id :: string
  start_time :: datetime
  end_time :: datetime
  report_type :: string
  report_metadata :: "report_metadata_dict option"
  validation_rules :: "validation_rules_dict option"
  time_partitions :: "time_partitions_dict option"

text \<open>\<open>BaseReport._validate_time_range\<close>; \<open>now\<close> is the reading of \<open>datetime.utcnow()\<close>.\<close>

definition validate_time_range :: "datetime \<Rightarrow> 'a BaseReport_scheme \<Rightarrow> py_error + unit" where
  "validate_time_range now r =
     (if end_time r \<le> start_time r then Inl (ValueError ''End time must be after start time'')
      else if now < end_time r then Inl (ValueError ''End time cannot be in the future'')
      else case datetime_attr_timedelta of
             Inl e \<Rightarrow> Inl e
           | Inr timedelta \<Rightarrow>
               (let max_range = timedelta (timedelta_days 90)
                in if max_range < end_time r - start_time r
                   then Inl (ValueError ''Time range cannot exceed 90 days'')
                   else Inr ()))"

text \<open>\<open>BaseReport._initialize_metadata\<close>.\<close>

definition initialize_metadata :: "datetime \<Rightarrow> 'a BaseReport_scheme \<Rightarrow> 'a BaseReport_scheme" where
  "initialize_metadata now r =
     r\<lparr>report_metadata := Some
         \<lparr>report_created_at = now,
          report_version = ''1.0.0'',
          metadata_report_type = report_type r,
          time_range = \<lparr>range_start = start_time r, range_end = end_time r,
                        duration_hours = total_seconds (end_time r - start_time r) / 3600\<rparr>,
          data_retention = (''standard'', 90, ''compress_after_30_days'')\<rparr>\<rparr>"

text \<open>
  \<open>BaseReport._calculate_partition_boundaries\<close>. The step of the loop is computed in
  its body, after the boundary is appended.
\<close>

definition partition_step :: "string \<Rightarrow> py_error + timedelta" where
  "partition_step partition_size =
     (case datetime_attr_timedelta of
        Inl e \<Rightarrow> Inl e
      | Inr timedelta \<Rightarrow>
          Inr (if partition_size = ''hourly'' then timedelta (timedelta_hours 1)
               else if partition_size = ''daily'' then timedelta (timedelta_days 1)
               else timedelta (timedelta_weeks 1)))"

function boundaries_loop :: "string \<Rightarrow> datetime \<Rightarrow> datetime \<Rightarrow> datetime list \<Rightarrow> py_error + datetime list" where
  "boundaries_loop partition_size end_t current boundaries =
     (if current \<le> end_t then
        (case partition_step partition_size of
           Inl e \<Rightarrow> Inl e
         | Inr d \<Rightarrow> boundaries_loop partition_size end_t (current + d) (boundaries @ [current]))
      else Inr boundaries)"
  by pat_completeness auto
termination
  by (relation "measure (\<lambda>(partition_size, end_t, current, boundaries). nat (end_t - current + 1))")
     (simp_all add: partition_step_def datetime_attr_timedelta_def)

definition calculate_partition_boundaries :: "'a BaseReport_scheme \<Rightarrow> string \<Rightarrow> py_error + datetime list" where
  "calculate_partition_boundaries r partition_size =
     boundaries_loop partition_size (end_time r) (start_time r) []"

text \<open>\<open>BaseReport._setup_time_partitions\<close>.\<close>

definition setup_time_partitions :: "'a BaseReport_scheme \<Rightarrow> py_error + 'a BaseReport_scheme" where
  "setup_time_partitions r =
     (let duration_hours = total_seconds (end_time r - start_time r) / 3600;
          partition_size = (if duration_hours \<le> 24 then ''hourly''
                            else if duration_hours \<le> 168 then ''daily''
                            else ''weekly'');
          count = py_int (duration_hours /
                    (if partition_size = ''hourly'' then 1
                     else if partition_size = ''daily'' then 24 else 168))
      in case calculate_partition_boundaries r partition_size of
           Inl e \<Rightarrow> Inl e
         | Inr bs \<Rightarrow>
             Inr (r\<lparr>time_partitions := Some
                      \<lparr>strategy = partition_size, partition_count = count,
                       partition_boundaries = bs\<rparr>\<rparr>))"

text \<open>\<open>BaseReport._configure_validation_rules\<close>.\<close>

definition configure_validation_rules :: "'a BaseReport_scheme \<Rightarrow> 'a BaseReport_scheme" where
  "configure_validation_rules r =
     r\<lparr>validation_rules := Some
         \<lparr>completeness_threshold = 95 / 100,
          freshness_threshold_minutes = 60,
          consistency_checks = [''time_series_continuity'', ''value_range_validation''],
          quality_metrics = [''accuracy'', ''completeness'', ''consistency'']\<rparr>\<rparr>"

text \<open>
  \<open>BaseReport.__post_init__\<close>: the time range is validated first, then the metadata,
  the partitions and the rules are set. \<open>clock k\<close> is the k-th reading of
  \<open>datetime.utcnow()\<close>.
\<close>

definition BaseReport_post_init :: "(nat \<Rightarrow> datetime) \<Rightarrow> 'a BaseReport_scheme \<Rightarrow> py_error + 'a BaseReport_scheme" where
  "BaseReport_post_init clock r =
     (case validate_time_range (clock 0) r of
        Inl e \<Rightarrow> Inl e
      | Inr u \<Rightarrow>
         (case setup_time_partitions (initialize_metadata (clock 1) r) of
            Inl e \<Rightarrow> Inl e
          | Inr r2 \<Rightarrow> Inr (configure_validation_rules r2)))"


section \<open>routes/reports.py\<close>

text \<open>
  The validators of \<open>ReportRequest\<close>. This module imports \<open>timedelta\<close> itself.
  \<open>values_start_time\<close> is \<open>values.get("start_time")\<close>: the start time when it passed
  its own validation.
\<close>

definition ReportRequest_validate_time_period :: "string \<Rightarrow> py_error + string" where
  "ReportRequest_validate_time_period v =
     (if v \<notin> set [''hourly'', ''daily'', ''weekly'']
      then Inl (ValueError ''Time period must be one of [hourly, daily, weekly]'')
      else Inr v)"

definition ReportRequest_validate_time_range :: "datetime \<Rightarrow> datetime \<Rightarrow> py_error + datetime" where
  "ReportRequest_validate_time_range now v =
     (if now < v then Inl (ValueError ''Time cannot be in the future'') else Inr v)"

definition ReportRequest_validate_time_span :: "datetime \<Rightarrow> datetime option \<Rightarrow> py_error + datetime" where
  "ReportRequest_validate_time_span v values_start_time =
     (case values_start_time of
        None \<Rightarrow> Inr v
      | Some start \<Rightarrow>
          (let time_diff = v - start
           in if timedelta_days 90 < time_diff then Inl (ValueError ''Time range cannot exceed 90 days'')
              else if total_seconds time_diff \<le> 0 then Inl (ValueError ''End time must be after start time'')
              else Inr v))"


text \<open>
  Inputs for the examples: a report over a given range, a system metric with a given
  response time, a calculator with two historical delivery rates, and the line
  \<open>np.polyfit\<close> fits through them.
\<close>

definition sample_report :: "datetime \<Rightarrow> datetime \<Rightarrow> BaseReport" where
  "sample_report s e =
     \<lparr>report_id = ''5f0c2a0e-8a63-4a43-9a61-0d3c3a1c9f10'', report_organization_id = ''org-1'',
      start_time = s, end_time = e, report_type = ''delivery'',
      report_metadata = None, validation_rules = None, time_partitions = None\<rparr>"

definition sample_system_metric :: "real \<Rightarrow> SystemMetric" where
  "sample_system_metric rt =
     \<lparr>metric_id = ''123e4567-e89b-12d3-a456-426614174000'', organization_id = ''org-1'',
      timestamp = 5, metadata = empty_metadata, is_valid = True, validation_errors = [],
      response_time = rt, cpu_usage = 40, memory_usage = 50, concurrent_users = 10,
      error_counts = [], resource_thresholds = [], performance_history = []\<rparr>"

definition sample_calculator :: MetricsCalculator where
  "sample_calculator =
     \<lparr>delivery_thresholds = [99, 97, 95], engagement_thresholds = [80, 60, 40],
      historical_data =
        [\<lparr>row_timestamp = 1, row_metric_type = ''delivery_rate'', row_value = 100\<rparr>,
         \<lparr>row_timestamp = 2, row_metric_type = ''delivery_rate'', row_value = 100\<rparr>]\<rparr>"

definition sample_polyfit :: "real list \<Rightarrow> real list \<Rightarrow> nat \<Rightarrow> py_error + real list" where
  "sample_polyfit x y deg =
     (if x = [] then Inl (TypeError ''expected non-empty vector for x'') else Inr [0, 100])"


section \<open>Auxiliary facts\<close>

lemma round_half_even_error: "\<bar>of_int (round_half_even x) - x\<bar> \<le> 1 / 2"
  unfolding round_half_even_def Let_def by (auto; linarith)

lemma py_round_2_error: "\<bar>py_round x 2 - x\<bar> \<le> 1 / 200"
proof -
  have "\<bar>of_int (round_half_even (x * 100)) - x * 100\<bar> \<le> 1 / 2"
    by (rule round_half_even_error)
  then show ?thesis
    unfolding py_round_def by (simp add: field_simps abs_le_iff)
qed
























lemma validate_counts:
  "total_messages (validate uuid_ok now m) = total_messages m"
  "delivered_messages (validate uuid_ok now m) = delivered_messages m"
  "failed_messages (validate uuid_ok now m) = failed_messages m"
  unfolding validate_def Let_def by simp_all

lemma np_min_nonempty: "xs \<noteq> [] \<Longrightarrow> \<exists>m. np_min xs = Inr m"
  by (cases xs) simp_all

lemma np_max_nonempty: "xs \<noteq> [] \<Longrightarrow> \<exists>m. np_max xs = Inr m"
  by (cases xs) simp_all

lemma collect_percentiles:
  assumes "data \<noteq> []" and "\<forall>p\<in>set ps. 0 \<le> p \<and> p \<le> 100"
  shows "collect (\<lambda>p. map_sum id (Pair p) (np_percentile data p)) ps
           = Inr (map (\<lambda>p. (p, linear_percentile data p)) ps)"
  using assms by (induction ps) (simp_all add: np_percentile_def)

text \<open>
  The summary of a non-empty sample with percentiles in range is always produced, and
  this is its value.
\<close>

lemma summary_returns:
  assumes "data \<noteq> []" and "\<forall>p\<in>set (requested_percentiles options). 0 \<le> p \<and> p \<le> 100"
  shows "calculate_statistical_summary data options =
     Inr \<lparr>basic_stats = \<lparr>mean = np_mean data, median = np_median data, std = np_std data,
                          minimum = projr (np_min data), maximum = projr (np_max data)\<rparr>,
          percentiles = map (\<lambda>p. (p, linear_percentile data p)) (requested_percentiles options),
          confidence_interval =
            (if 30 \<le> length data then
               Some \<lparr>lower = np_mean data - 196 / 100 * (np_std data / sqrt (real (length data))),
                     upper = np_mean data + 196 / 100 * (np_std data / sqrt (real (length data))),
                     confidence_level = 95 / 100\<rparr>
             else None)\<rparr>"
proof -
  obtain mn where mn: "np_min data = Inr mn"
    using np_min_nonempty [OF assms(1)] ..
  obtain mx where mx: "np_max data = Inr mx"
    using np_max_nonempty [OF assms(1)] ..
  show ?thesis
    unfolding calculate_statistical_summary_def Let_def
    by (simp add: mn mx collect_percentiles [OF assms])
qed

lemma np_std_single: "np_std [x] = 0"
  by (simp add: np_std_def np_mean_def)

lemma linear_percentile_single: "linear_percentile [x] p = x"
  by (simp add: linear_percentile_def)

lemma np_mean_replicate: "0 < n \<Longrightarrow> np_mean (replicate n c) = c"
  by (simp add: np_mean_def sum_list_replicate)

lemma np_std_replicate: "0 < n \<Longrightarrow> np_std (replicate n c) = 0"
  by (simp add: np_std_def np_mean_replicate)


lemma BaseMetric_post_init_facts:
  "is_valid (BaseMetric_post_init uuid_ok now1 now2 cls m) =
     (uuid_ok (metric_id m) \<and> organization_id_match (organization_id m) \<and> timestamp m \<le> now1)"
  "validation_errors (BaseMetric_post_init uuid_ok now1 now2 cls m) = validation_errors (validate uuid_ok now1 m)"
  "total_messages (BaseMetric_post_init uuid_ok now1 now2 cls m) = total_messages m"
  "delivered_messages (BaseMetric_post_init uuid_ok now1 now2 cls m) = delivered_messages m"
  "failed_messages (BaseMetric_post_init uuid_ok now1 now2 cls m) = failed_messages m"
  unfolding BaseMetric_post_init_def validate_def Let_def by auto

lemma calculate_delivery_rate_effect:
  "\<exists>m'. calculate_delivery_rate now m =
          Inr (if total_messages m = 0 then 0
               else py_round (real_of_int (delivered_messages m) / real_of_int (total_messages m) * 100) 2,
               m') \<and>
     validation_errors m' =
       validation_errors m
       @ (if total_messages m \<noteq> 0 \<and>
             real_of_int (delivered_messages m) / real_of_int (total_messages m) * 100 < 99
          then [''Delivery rate below SLA requirement of 99%''] else []) \<and>
     is_valid m' = is_valid m \<and>
     total_messages m' = total_messages m \<and>
     delivered_messages m' = delivered_messages m \<and>
     failed_messages m' = failed_messages m"
  unfolding calculate_delivery_rate_def py_truediv_def Let_def by simp

lemma MessageMetric_post_init_effect:
  "\<exists>m'. MessageMetric_post_init uuid_ok clock m = Inr m' \<and>
      is_valid m' = (uuid_ok (metric_id m) \<and> organization_id_match (organization_id m)
                     \<and> timestamp m \<le> clock 0) \<and>
      validation_errors m' =
        validation_errors (validate uuid_ok (clock 0) m)
        @ (if total_messages m \<noteq> 0 \<and>
              real_of_int (delivered_messages m) / real_of_int (total_messages m) * 100 < 99
           then [''Delivery rate below SLA requirement of 99%''] else [])
        @ (if total_messages m < 0 \<or> delivered_messages m < 0 \<or> failed_messages m < 0
           then [''Message counts cannot be negative''] else [])
        @ (if total_messages m < delivered_messages m + failed_messages m
           then [''Total messages must be >= delivered + failed messages''] else []) \<and>
      delivery_rate m' =
        (if total_messages m = 0 then 0
         else py_round (real_of_int (delivered_messages m) / real_of_int (total_messages m) * 100) 2) \<and>
      total_messages m' = total_messages m \<and>
      delivered_messages m' = delivered_messages m \<and>
      failed_messages m' = failed_messages m"
proof -
  let ?b = "BaseMetric_post_init uuid_ok (clock 0) (clock 1) ''MessageMetric'' m"
  let ?r = "if total_messages ?b = 0 then 0
            else py_round (real_of_int (delivered_messages ?b) / real_of_int (total_messages ?b) * 100) 2"
  obtain m2 where c: "calculate_delivery_rate (clock 2) ?b = Inr (?r, m2)"
    and e: "validation_errors m2 =
       validation_errors ?b
       @ (if total_messages ?b \<noteq> 0 \<and>
             real_of_int (delivered_messages ?b) / real_of_int (total_messages ?b) * 100 < 99
          then [''Delivery rate below SLA requirement of 99%''] else [])"
    and v: "is_valid m2 = is_valid ?b"
    and t: "total_messages m2 = total_messages ?b"
           "delivered_messages m2 = delivered_messages ?b"
           "failed_messages m2 = failed_messages ?b"
    using calculate_delivery_rate_effect [of "clock 2" ?b] by blast
  show ?thesis
    unfolding MessageMetric_post_init_def Let_def c sum.case prod.case
    by (simp add: e v t BaseMetric_post_init_facts)
qed

text \<open>What \<open>__post_init__\<close> leaves in the metrics of the examples.\<close>

lemma initialised_facts:
  "is_valid (initialised m) =
     (metric_id m = ''123e4567-e89b-12d3-a456-426614174000'' \<and>
      organization_id_match (organization_id m) \<and> timestamp m \<le> 1000)"
  "validation_errors (initialised m) =
        validation_errors (validate sample_uuid_ok 1000 m)
        @ (if total_messages m \<noteq> 0 \<and>
              real_of_int (delivered_messages m) / real_of_int (total_messages m) * 100 < 99
           then [''Delivery rate below SLA requirement of 99%''] else [])
        @ (if total_messages m < 0 \<or> delivered_messages m < 0 \<or> failed_messages m < 0
           then [''Message counts cannot be negative''] else [])
        @ (if total_messages m < delivered_messages m + failed_messages m
           then [''Total messages must be >= delivered + failed messages''] else [])"
  "delivery_rate (initialised m) =
     (if total_messages m = 0 then 0
      else py_round (real_of_int (delivered_messages m) / real_of_int (total_messages m) * 100) 2)"
  "total_messages (initialised m) = total_messages m"
  "delivered_messages (initialised m) = delivered_messages m"
  "failed_messages (initialised m) = failed_messages m"
proof -
  obtain m' where i: "MessageMetric_post_init sample_uuid_ok sample_clock m = Inr m'"
    and v: "is_valid m' = (sample_uuid_ok (metric_id m) \<and>
                           organization_id_match (organization_id m) \<and> timestamp m \<le> sample_clock 0)"
    and e: "validation_errors m' =
        validation_errors (validate sample_uuid_ok (sample_clock 0) m)
        @ (if total_messages m \<noteq> 0 \<and>
              real_of_int (delivered_messages m) / real_of_int (total_messages m) * 100 < 99
           then [''Delivery rate below SLA requirement of 99%''] else [])
        @ (if total_messages m < 0 \<or> delivered_messages m < 0 \<or> failed_messages m < 0
           then [''Message counts cannot be negative''] else [])
        @ (if total_messages m < delivered_messages m + failed_messages m
           then [''Total messages must be >= delivered + failed messages''] else [])"
    and r: "delivery_rate m' =
              (if total_messages m = 0 then 0
               else py_round (real_of_int (delivered_messages m) / real_of_int (total_messages m) * 100) 2)"
    and c: "total_messages m' = total_messages m" "delivered_messages m' = delivered_messages m"
           "failed_messages m' = failed_messages m"
    using MessageMetric_post_init_effect [of sample_uuid_ok sample_clock m]
    by blast
  have m': "initialised m = m'"
    unfolding initialised_def i by simp
  show "is_valid (initialised m) =
     (metric_id m = ''123e4567-e89b-12d3-a456-426614174000'' \<and>
      organization_id_match (organization_id m) \<and> timestamp m \<le> 1000)"
    unfolding m' v by (simp add: sample_uuid_ok_def sample_clock_def)
  show "validation_errors (initialised m) =
        validation_errors (validate sample_uuid_ok 1000 m)
        @ (if total_messages m \<noteq> 0 \<and>
              real_of_int (delivered_messages m) / real_of_int (total_messages m) * 100 < 99
           then [''Delivery rate below SLA requirement of 99%''] else [])
        @ (if total_messages m < 0 \<or> delivered_messages m < 0 \<or> failed_messages m < 0
           then [''Message counts cannot be negative''] else [])
        @ (if total_messages m < delivered_messages m + failed_messages m
           then [''Total messages must be >= delivered + failed messages''] else [])"
    unfolding m' e by (simp add: sample_clock_def)
  show "delivery_rate (initialised m) =
     (if total_messages m = 0 then 0
      else py_round (real_of_int (delivered_messages m) / real_of_int (total_messages m) * 100) 2)"
    unfolding m' r by simp
  show "total_messages (initialised m) = total_messages m"
    "delivered_messages (initialised m) = delivered_messages m"
    "failed_messages (initialised m) = failed_messages m"
    unfolding m' c by simp_all
qed

lemma sum_list_indicator:
  "sum_list (map (\<lambda>x. if P x then 1 else 0) xs) = real (length (filter P xs))"
  by (induction xs) simp_all

lemma np_mean_bool_fraction:
  "np_mean_bool P xs = real (length (filter P xs)) / real (length xs)"
  by (simp add: np_mean_bool_def np_mean_def sum_list_indicator)

lemma np_mean_bool_all:
  assumes "xs \<noteq> []" and "list_all P xs"
  shows "np_mean_bool P xs = 1"
proof -
  from assms(2) have "filter P xs = xs"
    by (simp add: list_all_iff)
  with assms(1) show ?thesis
    by (simp add: np_mean_bool_fraction)
qed

lemma np_mean_bool_none:
  assumes "list_all (\<lambda>x. \<not> P x) xs"
  shows "np_mean_bool P xs = 0"
proof -
  from assms have "filter P xs = []"
    by (simp add: list_all_iff filter_empty_conv)
  then show ?thesis
    by (simp add: np_mean_bool_fraction)
qed

text \<open>
  The historical comparison never returns: it ends with what \<open>np.polyfit\<close> raised,
  or with the read of the missing method.
\<close>

lemma calculate_historical_trends_raises:
  "calculate_historical_trends np_polyfit self metric_name current_values since =
     (case np_polyfit
             (map real [0..<length (map row_value
                (filter (\<lambda>row. row_metric_type row = metric_name \<and> since \<le> row_timestamp row)
                   (historical_data self)))])
             (map row_value
                (filter (\<lambda>row. row_metric_type row = metric_name \<and> since \<le> row_timestamp row)
                   (historical_data self))) 1 of
        Inl e \<Rightarrow> Inl e
      | Inr [] \<Rightarrow> Inl (IndexError ''index 0 is out of bounds for axis 0 with size 0'')
      | Inr (c # cs) \<Rightarrow>
          Inl (AttributeError ''MetricsCalculator object has no attribute _calculate_yoy_change''))"
  unfolding calculate_historical_trends_def missing_attribute_def Let_def
  by (simp split: sum.split list.split)

lemma calculate_historical_trends_no_result:
  "calculate_historical_trends np_polyfit self metric_name current_values since \<noteq> Inr h"
  unfolding calculate_historical_trends_raises
  by (simp split: sum.split list.split)

lemma calculate_delivery_statistics_no_result:
  "calculate_delivery_statistics np_polyfit self now ms since \<noteq> Inr res"
  unfolding calculate_delivery_statistics_def Let_def
  by (simp add: calculate_historical_trends_no_result split: sum.split)

lemma calculate_performance_statistics_raises:
  "calculate_performance_statistics self now sms include_predictions =
     Inl (AttributeError ''MetricsCalculator object has no attribute _calculate_health_status'')"
  unfolding calculate_performance_statistics_def missing_attribute_def Let_def
  by simp

lemma aggregate_delivery_metrics_no_result:
  "aggregate_delivery_metrics pd np_polyfit calculator clock ms time_period validate_sla \<noteq> Inr res"
  unfolding aggregate_delivery_metrics_def
  by (simp add: calculate_delivery_statistics_no_result split: sum.split)

lemma validate_time_range_never_passes: "validate_time_range now r \<noteq> Inr u"
  by (simp add: validate_time_range_def datetime_attr_timedelta_def)

lemma validate_time_range_cases:
  "validate_time_range now r =
     (if end_time r \<le> start_time r then Inl (ValueError ''End time must be after start time'')
      else if now < end_time r then Inl (ValueError ''End time cannot be in the future'')
      else Inl (AttributeError ''type object datetime.datetime has no attribute timedelta''))"
  by (simp add: validate_time_range_def datetime_attr_timedelta_def)

text \<open>The request validator accepts exactly the spans above zero and up to 90 days.\<close>

lemma ReportRequest_validate_time_span_iff:
  "ReportRequest_validate_time_span v (Some start) = Inr v
     \<longleftrightarrow> 0 < v - start \<and> v - start \<le> timedelta_days 90"
  by (auto simp add: ReportRequest_validate_time_span_def Let_def total_seconds_def)

lemma calculate_partition_boundaries_cases:
  "calculate_partition_boundaries r partition_size =
     (if start_time r \<le> end_time r
      then Inl (AttributeError ''type object datetime.datetime has no attribute timedelta'')
      else Inr [])"
  unfolding calculate_partition_boundaries_def
  by (subst boundaries_loop.simps) (simp add: partition_step_def datetime_attr_timedelta_def)

section \<open>Delivery rate of a message metric\<close>







section \<open>Validity flag and error list of a message metric\<close>

text \<open>
  C10. \<open>MessageMetric.__post_init__\<close> always returns, and in the metric it leaves
  \<open>is_valid\<close> is the outcome of the three base checks alone (identifier parses as a
  UUID, organization identifier matches, timestamp not after the clock reading). The
  SLA message and the two count messages are appended to the error list of the base
  validation afterwards, and the flag is not computed again. So a metric can be valid
  with a non-empty error list: 5 delivered out of 10 is one.
\<close>

theorem is_valid_is_base_validation_only:
  "(\<exists>m'. MessageMetric_post_init uuid_ok clock m = Inr m' \<and>
      is_valid m' = (uuid_ok (metric_id m) \<and> organization_id_match (organization_id m)
                     \<and> timestamp m \<le> clock 0) \<and>
      validation_errors m' =
        validation_errors (validate uuid_ok (clock 0) m)
        @ (if total_messages m \<noteq> 0 \<and>
              real_of_int (delivered_messages m) / real_of_int (total_messages m) * 100 < 99
           then [''Delivery rate below SLA requirement of 99%''] else [])
        @ (if total_messages m < 0 \<or> delivered_messages m < 0 \<or> failed_messages m < 0
           then [''Message counts cannot be negative''] else [])
        @ (if total_messages m < delivered_messages m + failed_messages m
           then [''Total messages must be >= delivered + failed messages''] else []))
   \<and> (\<exists>m'. MessageMetric_post_init (\<lambda>s. s = ''123e4567-e89b-12d3-a456-426614174000'') (\<lambda>k. 1000)
               (sample_metric 10 5 0) = Inr m' \<and>
            is_valid m' \<and> validation_errors m' \<noteq> [])"
proof
  show "\<exists>m'. MessageMetric_post_init uuid_ok clock m = Inr m' \<and>
      is_valid m' = (uuid_ok (metric_id m) \<and> organization_id_match (organization_id m)
                     \<and> timestamp m \<le> clock 0) \<and>
      validation_errors m' =
        validation_errors (validate uuid_ok (clock 0) m)
        @ (if total_messages m \<noteq> 0 \<and>
              real_of_int (delivered_messages m) / real_of_int (total_messages m) * 100 < 99
           then [''Delivery rate below SLA requirement of 99%''] else [])
        @ (if total_messages m < 0 \<or> delivered_messages m < 0 \<or> failed_messages m < 0
           then [''Message counts cannot be negative''] else [])
        @ (if total_messages m < delivered_messages m + failed_messages m
           then [''Total messages must be >= delivered + failed messages''] else [])"
    using MessageMetric_post_init_effect [of uuid_ok clock m] by blast
  show "\<exists>m'. MessageMetric_post_init (\<lambda>s. s = ''123e4567-e89b-12d3-a456-426614174000'') (\<lambda>k. 1000)
               (sample_metric 10 5 0) = Inr m' \<and>
            is_valid m' \<and> validation_errors m' \<noteq> []"
    using MessageMetric_post_init_effect
            [of "\<lambda>s. s = ''123e4567-e89b-12d3-a456-426614174000''" "\<lambda>k. 1000" "sample_metric 10 5 0"]
    by (auto simp add: sample_metric_def organization_id_match_def organization_id_char_def)
qed

theorem is_valid_is_base_validation_only_witness:
  "is_valid (projr (MessageMetric_post_init (\<lambda>s. s = ''123e4567-e89b-12d3-a456-426614174000'')
                      (\<lambda>k. 1000) (sample_metric (- 4) 5 0)))
   \<and> validation_errors (projr (MessageMetric_post_init (\<lambda>s. s = ''123e4567-e89b-12d3-a456-426614174000'')
                      (\<lambda>k. 1000) (sample_metric (- 4) 5 0)))
       = [''Delivery rate below SLA requirement of 99%'',
          ''Message counts cannot be negative'',
          ''Total messages must be >= delivered + failed messages'']"
  using is_valid_is_base_validation_only
          [of "\<lambda>s. s = ''123e4567-e89b-12d3-a456-426614174000''" "\<lambda>k. 1000" "sample_metric (- 4) 5 0"]
  by (auto simp add: sample_metric_def validate_def Let_def organization_id_match_def
        organization_id_char_def)






section \<open>Statistics calculator\<close>

text \<open>
  C3, as the code has it. When no metric of the collection is valid, and so also when
  the collection is empty, \<open>calculate_delivery_statistics\<close> raises
  \<open>ValueError\<close> with the message below and returns no statistics; nothing after the
  check is evaluated.
\<close>

theorem no_valid_metrics_no_statistics:
  assumes "\<forall>m\<in>set ms. \<not> is_valid m"
  shows "calculate_delivery_statistics np_polyfit self now ms since
           = Inl (ValueError ''No valid metrics provided for analysis'')"
proof -
  from assms have "filter is_valid ms = []"
    by (simp add: filter_empty_conv)
  then show ?thesis
    by (simp add: calculate_delivery_statistics_def)
qed

theorem no_valid_metrics_no_statistics_witness:
  "calculate_delivery_statistics sample_polyfit sample_calculator 1000 [] 0
     = Inl (ValueError ''No valid metrics provided for analysis'') \<and>
   calculate_delivery_statistics sample_polyfit sample_calculator 1000
       [initialised ((sample_metric 10 10 0)\<lparr>organization_id := ''org''\<rparr>),
        initialised ((sample_metric 200 199 1)\<lparr>timestamp := 2000\<rparr>)] 0
     = Inl (ValueError ''No valid metrics provided for analysis'')"
  using no_valid_metrics_no_statistics [of "[]" sample_polyfit sample_calculator 1000 0]
        no_valid_metrics_no_statistics
          [of "[initialised ((sample_metric 10 10 0)\<lparr>organization_id := ''org''\<rparr>),
                initialised ((sample_metric 200 199 1)\<lparr>timestamp := 2000\<rparr>)]"
              sample_polyfit sample_calculator 1000 0]
  by (simp add: initialised_facts sample_metric_def organization_id_match_def
        organization_id_char_def)

text \<open>
  C3 as it is written fails: the exception raised for an empty collection is of class
  \<open>ValueError\<close>, the class the code raises for every other failure too, and not of a
  class InsufficientDataError, which the repository does not define.
\<close>

theorem no_valid_metrics_error_is_value_error:
  "exception_class (projl (calculate_delivery_statistics sample_polyfit sample_calculator 1000 [] 0))
     = ''ValueError'' \<and>
   exception_class (projl (calculate_delivery_statistics sample_polyfit sample_calculator 1000 [] 0))
     \<noteq> ''InsufficientDataError''"
  by (simp add: calculate_delivery_statistics_def)

text \<open>
  C4. For a sample of one value \<open>x\<close> and requested percentiles in [0, 100] the summary
  is produced, its standard deviation is 0, and it has one entry per requested
  percentile, each equal to \<open>x\<close>.
\<close>

theorem single_element_summary:
  assumes "\<forall>p\<in>set (requested_percentiles options). 0 \<le> p \<and> p \<le> 100"
  shows "\<exists>s. calculate_statistical_summary [x] options = Inr s \<and>
              std (basic_stats s) = 0 \<and>
              map fst (percentiles s) = requested_percentiles options \<and>
              (\<forall>p\<in>set (requested_percentiles options). map_of (percentiles s) p = Some x)"
proof -
  have ne: "[x] \<noteq> []"
    by simp
  have *: "map_of (map (\<lambda>p. (p, x)) ps) p = Some x" if "p \<in> set ps" for ps :: "real list" and p
    using that by (induction ps) auto
  show ?thesis
    by (simp add: summary_returns [OF ne assms] np_std_single linear_percentile_single comp_def *)
qed

theorem single_element_summary_witness:
  "\<exists>s. calculate_statistical_summary [995 / 10]
           \<lparr>opt_percentiles = Some [25, 50, 75, 90, 95, 99], opt_include_outliers = Some True\<rparr> = Inr s \<and>
        std (basic_stats s) = 0 \<and>
        map fst (percentiles s) = [25, 50, 75, 90, 95, 99] \<and>
        map_of (percentiles s) 25 = Some (995 / 10) \<and>
        map_of (percentiles s) 99 = Some (995 / 10)"
  using single_element_summary
          [of "\<lparr>opt_percentiles = Some [25, 50, 75, 90, 95, 99], opt_include_outliers = Some True\<rparr>" "995 / 10"]
  by (auto simp add: requested_percentiles_def)

text \<open>
  C5. For a non-empty sample and requested percentiles in [0, 100] the summary is
  produced, and it has a confidence interval exactly when the sample has at least 30
  values; the interval is then mean - 1.96 * std / sqrt n to mean + 1.96 * std / sqrt n
  at level 0.95.
\<close>

theorem confidence_interval_iff_thirty:
  assumes "data \<noteq> []" and "\<forall>p\<in>set (requested_percentiles options). 0 \<le> p \<and> p \<le> 100"
  shows "\<exists>s. calculate_statistical_summary data options = Inr s \<and>
             (confidence_interval s \<noteq> None) = (30 \<le> length data) \<and>
             (30 \<le> length data \<longrightarrow>
                confidence_interval s =
                  Some \<lparr>lower = np_mean data - 196 / 100 * (np_std data / sqrt (real (length data))),
                        upper = np_mean data + 196 / 100 * (np_std data / sqrt (real (length data))),
                        confidence_level = 95 / 100\<rparr>)"
  by (simp add: summary_returns [OF assms])

theorem confidence_interval_iff_thirty_witness:
  "(\<exists>s. calculate_statistical_summary (replicate 30 99)
           \<lparr>opt_percentiles = None, opt_include_outliers = None\<rparr> = Inr s \<and>
        confidence_interval s = Some \<lparr>lower = 99, upper = 99, confidence_level = 95 / 100\<rparr>) \<and>
   (\<exists>s. calculate_statistical_summary (replicate 29 99)
           \<lparr>opt_percentiles = None, opt_include_outliers = None\<rparr> = Inr s \<and>
        confidence_interval s = None)"
  using confidence_interval_iff_thirty
          [of "replicate 30 99" "\<lparr>opt_percentiles = None, opt_include_outliers = None\<rparr>"]
        confidence_interval_iff_thirty
          [of "replicate 29 99" "\<lparr>opt_percentiles = None, opt_include_outliers = None\<rparr>"]
  by (auto simp add: requested_percentiles_def np_mean_replicate np_std_replicate)

text \<open>
  C6 at a failing input. For one valid metric with delivery rate 100.0 the claim has the
  calculator report the compliance ratio 1.0. \<open>calculate_delivery_statistics\<close>
  computes the historical comparison before it builds its result, and that call ends in
  the read of \<open>self._calculate_yoy_change\<close>, which no class defines: the method
  raises and the ratio of line 90 is never evaluated. This holds for every calculator,
  every list of metrics and whatever \<open>np.polyfit\<close> does. 
  \<open>calculate_performance_statistics\<close> raises in the same way at
  \<open>self._calculate_health_status\<close>, before the ratio of response times, and
  \<open>aggregate_delivery_metrics\<close> calls the calculator before it evaluates its
  \<open>compliant\<close> entry, so that it never returns either, whatever pandas does.
\<close>

theorem sla_compliance_never_reported:
  "calculate_delivery_statistics sample_polyfit sample_calculator 1000
       [initialised (sample_metric 100 100 0)] 0
     = Inl (AttributeError ''MetricsCalculator object has no attribute _calculate_yoy_change'')
   \<and> is_valid (initialised (sample_metric 100 100 0))
   \<and> delivery_rate (initialised (sample_metric 100 100 0)) = 100
   \<and> calculate_delivery_statistics np_polyfit self now ms since \<noteq> Inr res
   \<and> calculate_performance_statistics self now sms include_predictions
       = Inl (AttributeError ''MetricsCalculator object has no attribute _calculate_health_status'')
   \<and> aggregate_delivery_metrics pd np_polyfit self clock ms time_period validate_sla \<noteq> Inr ares"
proof (intro conjI)
  have v: "is_valid (initialised (sample_metric 100 100 0))"
    by (simp add: initialised_facts sample_metric_def organization_id_match_def
          organization_id_char_def)
  have r: "delivery_rate (initialised (sample_metric 100 100 0)) = 100"
    by (simp add: initialised_facts sample_metric_def py_round_def round_half_even_def)
  have ne: "[100 :: real] \<noteq> []"
    by simp
  have rng: "\<forall>p\<in>set (requested_percentiles
                \<lparr>opt_percentiles = Some [25, 50, 75, 90, 95, 99], opt_include_outliers = Some True\<rparr>).
               0 \<le> p \<and> p \<le> 100"
    by (simp add: requested_percentiles_def)
  have h: "calculate_historical_trends sample_polyfit sample_calculator ''delivery_rate'' [100] 0
             = Inl (AttributeError ''MetricsCalculator object has no attribute _calculate_yoy_change'')"
    unfolding calculate_historical_trends_raises
    by (simp add: sample_calculator_def sample_polyfit_def)
  show "calculate_delivery_statistics sample_polyfit sample_calculator 1000
       [initialised (sample_metric 100 100 0)] 0
     = Inl (AttributeError ''MetricsCalculator object has no attribute _calculate_yoy_change'')"
    unfolding calculate_delivery_statistics_def Let_def
    by (simp add: v r summary_returns [OF ne rng] h)
  show "is_valid (initialised (sample_metric 100 100 0))"
    by (rule v)
  show "delivery_rate (initialised (sample_metric 100 100 0)) = 100"
    by (rule r)
  show "calculate_delivery_statistics np_polyfit self now ms since \<noteq> Inr res"
    by (rule calculate_delivery_statistics_no_result)
  show "calculate_performance_statistics self now sms include_predictions
       = Inl (AttributeError ''MetricsCalculator object has no attribute _calculate_health_status'')"
    by (rule calculate_performance_statistics_raises)
  show "aggregate_delivery_metrics pd np_polyfit self clock ms time_period validate_sla \<noteq> Inr ares"
    by (rule aggregate_delivery_metrics_no_result)
qed


section \<open>Time range and partitions of a report\<close>

text \<open>
  C1 at a failing input. A report over exactly 90 days that ended ten days ago passes
  the first two checks of \<open>BaseReport._validate_time_range\<close> and then raises
  \<open>AttributeError\<close> at \<open>datetime.timedelta(days=90)\<close>, so the construction fails
  although the range is allowed. The validator of the request model in
  routes/reports.py, which imports \<open>timedelta\<close>, accepts the same range and refuses it
  one second longer.
\<close>

theorem ninety_day_report_fails_to_validate:
  "validate_time_range (timedelta_days 100) (sample_report 0 (timedelta_days 90))
     = Inl (AttributeError ''type object datetime.datetime has no attribute timedelta'') \<and>
   BaseReport_post_init (\<lambda>k. timedelta_days 100) (sample_report 0 (timedelta_days 90))
     = Inl (AttributeError ''type object datetime.datetime has no attribute timedelta'') \<and>
   ReportRequest_validate_time_span (timedelta_days 90) (Some 0) = Inr (timedelta_days 90) \<and>
   ReportRequest_validate_time_span (timedelta_days 90 + timedelta_seconds 1) (Some 0)
     = Inl (ValueError ''Time range cannot exceed 90 days'')"
  by (simp add: validate_time_range_cases BaseReport_post_init_def sample_report_def
        ReportRequest_validate_time_span_def timedelta_days_def timedelta_seconds_def total_seconds_def)

text \<open>
  C2 at a failing input. For a range of 24 hours and hourly partitions
  \<open>_calculate_partition_boundaries\<close> enters its loop and raises \<open>AttributeError\<close> at
  \<open>datetime.timedelta(hours=1)\<close>; no boundary list and no partition count is stored.
\<close>

theorem hourly_partitions_of_a_day_fail:
  "calculate_partition_boundaries (sample_report 0 (timedelta_hours 24)) ''hourly''
     = Inl (AttributeError ''type object datetime.datetime has no attribute timedelta'') \<and>
   setup_time_partitions (sample_report 0 (timedelta_hours 24))
     = Inl (AttributeError ''type object datetime.datetime has no attribute timedelta'')"
  by (simp add: setup_time_partitions_def calculate_partition_boundaries_cases sample_report_def
        timedelta_hours_def)

end
